theory Spec2Isabelle
  imports Main
begin

section \<open>Levels and colours (logger.go, lines 12-31)\<close>

text \<open>
  \<^verbatim>\<open>type LogLevel int\<close> is an open integer type; the five named levels are the
  values 0 to 4 given by \<^verbatim>\<open>iota\<close>. Levels are only compared, never computed with,
  so the mathematical integers stand for Go's \<^verbatim>\<open>int\<close>.
\<close>

type_synonym LogLevel = int

definition DEBUG :: LogLevel where "DEBUG = 0"
definition INFO :: LogLevel where "INFO = 1"
definition ERROR :: LogLevel where "ERROR = 2"
definition SUCCESS :: LogLevel where "SUCCESS = 3"
definition FAIL :: LogLevel where "FAIL = 4"

lemmas level_defs = DEBUG_def INFO_def ERROR_def SUCCESS_def FAIL_def

text \<open>The ANSI escape sequences; \<^verbatim>\<open>\033\<close> is the byte 0x1B.\<close>

definition Reset :: string where "Reset = CHR 0x1B # ''[0m''"
definition Red :: string where "Red = CHR 0x1B # ''[31m''"
definition Green :: string where "Green = CHR 0x1B # ''[32m''"
definition Yellow :: string where "Yellow = CHR 0x1B # ''[33m''"
definition Blue :: string where "Blue = CHR 0x1B # ''[34m''"

lemmas color_defs = Reset_def Red_def Green_def Yellow_def Blue_def

section \<open>The operating system and the Go library, as far as the logger uses them\<close>

datatype error = PathError string string | ErrClosed | SyscallError string

text \<open>A nil pointer dereference is the one run-time panic the logger's code could meet.\<close>

datatype fault = NilPointerDereference

text \<open>
  The process's view of the operating system. A file handle (\<^verbatim>\<open>*os.File\<close>) is an
  index into \<open>handles\<close>, which gives the path it was opened on; \<open>closes\<close> is the trace
  of every call of \<^verbatim>\<open>(*os.File).Close\<close>, so a handle is open when it was handed out
  and never closed. \<open>files\<close> holds, for every existing file, the lines appended to it,
  \<open>stdout\<close> the lines written to standard output. \<open>unopenable\<close> holds the paths on
  which \<^verbatim>\<open>os.OpenFile\<close> fails; \<open>executable\<close> and \<open>getwd\<close> are what
  \<^verbatim>\<open>os.Executable()\<close> and \<^verbatim>\<open>os.Getwd()\<close> return in this process.
\<close>

record os_state =
  handles :: "string list"
  closes :: "nat list"
  files :: "string \<rightharpoonup> string list"
  stdout :: "string list"
  unopenable :: "string set"
  executable :: "error + string"
  getwd :: "error + string"

definition is_open :: "'a os_state_scheme \<Rightarrow> nat \<Rightarrow> bool" where
  "is_open w h \<longleftrightarrow> h < length (handles w) \<and> h \<notin> set (closes w)"

definition open_handles :: "'a os_state_scheme \<Rightarrow> nat list" where
  "open_handles w = filter (is_open w) [0..<length (handles w)]"

definition file_lines :: "'a os_state_scheme \<Rightarrow> string \<Rightarrow> string list" where
  "file_lines w path = (case files w path of None \<Rightarrow> [] | Some ls \<Rightarrow> ls)"

text \<open>
  \<^verbatim>\<open>os.OpenFile(path, os.O_CREATE|os.O_WRONLY|os.O_APPEND, 0644)\<close>: a fresh handle on
  \<open>path\<close>, the file created empty when it does not exist and left as it is otherwise;
  or an error, and then no handle.
\<close>

definition os_OpenFile :: "string \<Rightarrow> 'a os_state_scheme \<Rightarrow> (error + nat) \<times> 'a os_state_scheme" where
  "os_OpenFile path w =
     (if path \<in> unopenable w then (Inl (PathError ''open'' path), w)
      else (Inr (length (handles w)),
            w\<lparr>handles := handles w @ [path],
              files := (files w)(path \<mapsto> file_lines w path)\<rparr>))"

text \<open>
  \<^verbatim>\<open>(*os.File).Close\<close>: every call is recorded; closing a handle that is not open
  returns an error.
\<close>

definition File_Close :: "nat \<Rightarrow> 'a os_state_scheme \<Rightarrow> error option \<times> 'a os_state_scheme" where
  "File_Close h w =
     (if is_open w h then None else Some ErrClosed, w\<lparr>closes := closes w @ [h]\<rparr>)"

datatype Writer = Stdout | File nat

text \<open>
  \<^verbatim>\<open>Write\<close> on standard output or on a file opened for appending. Writing through a
  handle that is not open fails and writes nothing.
\<close>

definition Write :: "Writer \<Rightarrow> string \<Rightarrow> 'a os_state_scheme \<Rightarrow> error option \<times> 'a os_state_scheme" where
  "Write wr line w =
     (case wr of
        Stdout \<Rightarrow> (None, w\<lparr>stdout := stdout w @ [line]\<rparr>)
      | File h \<Rightarrow>
          if is_open w h
          then (None, w\<lparr>files := (files w)(handles w ! h \<mapsto> file_lines w (handles w ! h) @ [line])\<rparr>)
          else (Some ErrClosed, w))"

text \<open>
  A \<^verbatim>\<open>log.Logger\<close>: its writer, prefix and flags. The flags
  \<^verbatim>\<open>log.Ldate|log.Ltime|log.Lmicroseconds\<close> are 1, 2 and 4. They make the
  logger put the date and time in front of every line; that prefix is the
  \<^verbatim>\<open>log\<close> package's and depends on the clock, so a line is recorded here as the
  text the logger's code hands to \<^verbatim>\<open>Printf\<close>.
\<close>

record Logger =
  out :: Writer
  prefix :: string
  flag :: nat

definition log_New :: "Writer \<Rightarrow> string \<Rightarrow> nat \<Rightarrow> Logger" where
  "log_New wr p f = \<lparr>out = wr, prefix = p, flag = f\<rparr>"

definition log_flags :: nat where
  "log_flags = 7"

text \<open>
  \<^verbatim>\<open>(*log.Logger).Printf\<close> on a pointer that may be nil: a nil receiver panics, any
  other logger writes the line and drops the writer's error.
\<close>

definition Logger_Printf :: "Logger option \<Rightarrow> string \<Rightarrow> 'a os_state_scheme \<Rightarrow> fault + 'a os_state_scheme" where
  "Logger_Printf l line w =
     (case l of
        None \<Rightarrow> Inl NilPointerDereference
      | Some lg \<Rightarrow> Inr (snd (Write (out lg) line w)))"

text \<open>
  The library functions whose results the logger only passes on are parameters:
  \<^verbatim>\<open>fmt.Sprintf\<close> on the caller's template and arguments (of any type \<open>'v\<close>),
  \<^verbatim>\<open>filepath.Join\<close> and \<^verbatim>\<open>filepath.Dir\<close>.
\<close>

record 'v stdlib =
  fmt_Sprintf :: "string \<Rightarrow> 'v list \<Rightarrow> string"
  filepath_Join :: "string \<Rightarrow> string \<Rightarrow> string"
  filepath_Dir :: "string \<Rightarrow> string"

text \<open>\<^verbatim>\<open>strings.Contains(s, substr)\<close>.\<close>

fun strings_Contains :: "string \<Rightarrow> string \<Rightarrow> bool" where
  "strings_Contains [] substr = (substr = [])"
| "strings_Contains (c # s) substr =
     (take (length substr) (c # s) = substr \<or> strings_Contains s substr)"

section \<open>The package state (logger.go, lines 33-40)\<close>

text \<open>
  The six package variables, on top of the operating system's state. A nil pointer is
  \<open>None\<close>; \<open>closeOnce\<close> is the \<^verbatim>\<open>sync.Once\<close>, true once its function has run.
\<close>

record state = os_state +
  fileLogger :: "Logger option"
  consoleLogger :: "Logger option"
  fileLevel :: LogLevel
  consoleLevel :: LogLevel
  logFile :: "nat option"
  closeOnce :: bool

text \<open>The state at process start: Go's zero values, in the operating system state \<open>w\<close>.\<close>

definition init_state :: "os_state \<Rightarrow> state" where
  "init_state w =
     \<lparr>handles = handles w, closes = closes w, files = files w, stdout = stdout w,
      unopenable = unopenable w, executable = executable w, getwd = getwd w,
      fileLogger = None, consoleLogger = None, fileLevel = 0, consoleLevel = 0,
      logFile = None, closeOnce = False\<rparr>"

section \<open>The logger's functions (logger.go, lines 51-183)\<close>

definition SetConsoleLevel :: "LogLevel \<Rightarrow> state \<Rightarrow> state" where
  "SetConsoleLevel level st =
     (let st1 = st\<lparr>consoleLevel := level\<rparr>
      in st1\<lparr>consoleLogger := Some (log_New Stdout [] log_flags)\<rparr>)"

definition SetFileLevel :: "LogLevel \<Rightarrow> state \<Rightarrow> state" where
  "SetFileLevel level st = st\<lparr>fileLevel := level\<rparr>"

text \<open>
  \<^verbatim>\<open>logFile, err = os.OpenFile(...)\<close> assigns \<open>logFile\<close> before the error is
  looked at: on failure \<open>logFile\<close> becomes nil and \<open>fileLogger\<close> stays as it was.
\<close>

definition SetLogFile :: "string \<Rightarrow> state \<Rightarrow> error option \<times> state" where
  "SetLogFile path st =
     (case os_OpenFile path st of
        (Inl err, st1) \<Rightarrow> (Some err, st1\<lparr>logFile := None\<rparr>)
      | (Inr h, st1) \<Rightarrow>
          (let st2 = st1\<lparr>logFile := Some h\<rparr>
           in (None, st2\<lparr>fileLogger := Some (log_New (File h) [] log_flags)\<rparr>)))"

definition getWorkingDir :: "'v stdlib \<Rightarrow> state \<Rightarrow> string \<times> error option" where
  "getWorkingDir lib st =
     (case executable st of
        Inl err \<Rightarrow> ('''', Some err)
      | Inr exePath \<Rightarrow>
          if strings_Contains exePath ''go-build'' \<or> strings_Contains exePath ''tmp''
          then (case getwd st of Inl err \<Rightarrow> ('''', Some err) | Inr dir \<Rightarrow> (dir, None))
          else (filepath_Dir lib exePath, None))"

definition InitDefaultLogFile :: "'v stdlib \<Rightarrow> state \<Rightarrow> error option \<times> state" where
  "InitDefaultLogFile lib st =
     (case getWorkingDir lib st of
        (dir, Some err) \<Rightarrow> (Some err, st)
      | (dir, None) \<Rightarrow> SetLogFile (filepath_Join lib dir ''out.log'') st)"

definition SetupLogging :: "'v stdlib \<Rightarrow> LogLevel \<Rightarrow> LogLevel \<Rightarrow> state \<Rightarrow> error option \<times> state" where
  "SetupLogging lib consoleLogLevel fileLogLevel st =
     (let st1 = SetConsoleLevel consoleLogLevel st;
          st2 = SetFileLevel fileLogLevel st1
      in InitDefaultLogFile lib st2)"

text \<open>
  \<^verbatim>\<open>closeOnce.Do(f)\<close> runs \<open>f\<close> when the latch is not yet set and sets it; the error
  that \<^verbatim>\<open>logFile.Close()\<close> returns is dropped.
\<close>

definition Close :: "state \<Rightarrow> state" where
  "Close st =
     (if closeOnce st then st
      else let st1 = (case logFile st of None \<Rightarrow> st | Some h \<Rightarrow> snd (File_Close h st))
           in st1\<lparr>closeOnce := True\<rparr>)"

definition levelToString :: "LogLevel \<Rightarrow> string" where
  "levelToString level =
     (if level = DEBUG then ''DEBUG''
      else if level = INFO then ''INFO''
      else if level = ERROR then ''ERROR''
      else if level = SUCCESS then ''SUCCESS''
      else if level = FAIL then ''FAIL''
      else ''UNKNOWN'')"

definition shouldLog :: "LogLevel \<Rightarrow> LogLevel \<Rightarrow> bool" where
  "shouldLog msgLevel minLevel \<longleftrightarrow> msgLevel \<ge> minLevel"

text \<open>
  The two \<^verbatim>\<open>Printf\<close> calls of \<open>LogMessage\<close> have fixed templates whose only verb is
  \<^verbatim>\<open>%s\<close> and whose operands are strings, so their results are the concatenations
  written out below. The template of the caller goes through \<open>fmt_Sprintf\<close>.
\<close>

definition LogMessage :: "'v stdlib \<Rightarrow> string \<Rightarrow> LogLevel \<Rightarrow> 'v list \<Rightarrow> state \<Rightarrow> fault + state" where
  "LogMessage lib format level args st =
     (let message = (if length args > 0 then fmt_Sprintf lib format args else format);
          levelStr = levelToString level
      in case (if shouldLog level (fileLevel st) \<and> fileLogger st \<noteq> None
               then Logger_Printf (fileLogger st) (''| '' @ levelStr @ '' | '' @ message) st
               else Inr st) of
           Inl f \<Rightarrow> Inl f
         | Inr st1 \<Rightarrow>
             if shouldLog level (consoleLevel st1) \<and> consoleLogger st1 \<noteq> None
             then (let color =
                         (if level = DEBUG then Yellow
                          else if level = INFO then Blue
                          else if level = ERROR \<or> level = FAIL then Red
                          else if level = SUCCESS then Green
                          else Yellow)
                   in Logger_Printf (consoleLogger st1)
                        (color @ ''| '' @ levelStr @ '' |'' @ Reset @ '' '' @ message) st1)
             else Inr st1)"

definition Debug :: "'v stdlib \<Rightarrow> string \<Rightarrow> 'v list \<Rightarrow> state \<Rightarrow> fault + state" where
  "Debug lib format args st = LogMessage lib format DEBUG args st"

definition Info :: "'v stdlib \<Rightarrow> string \<Rightarrow> 'v list \<Rightarrow> state \<Rightarrow> fault + state" where
  "Info lib format args st = LogMessage lib format INFO args st"

definition Error :: "'v stdlib \<Rightarrow> string \<Rightarrow> 'v list \<Rightarrow> state \<Rightarrow> fault + state" where
  "Error lib format args st = LogMessage lib format ERROR args st"

definition Success :: "'v stdlib \<Rightarrow> string \<Rightarrow> 'v list \<Rightarrow> state \<Rightarrow> fault + state" where
  "Success lib format args st = LogMessage lib format SUCCESS args st"

definition Fail :: "'v stdlib \<Rightarrow> string \<Rightarrow> 'v list \<Rightarrow> state \<Rightarrow> fault + state" where
  "Fail lib format args st = LogMessage lib format FAIL args st"

section \<open>Callers: sequences of calls of the exported functions\<close>

datatype 'v call =
    CallSetupLogging LogLevel LogLevel
  | CallSetConsoleLevel LogLevel
  | CallSetFileLevel LogLevel
  | CallSetLogFile string
  | CallInitDefaultLogFile
  | CallClose
  | CallLogMessage string LogLevel "'v list"
  | CallDebug string "'v list"
  | CallInfo string "'v list"
  | CallError string "'v list"
  | CallSuccess string "'v list"
  | CallFail string "'v list"

text \<open>One call; a caller may ignore a returned error, so the error is dropped here.\<close>

fun perform :: "'v stdlib \<Rightarrow> 'v call \<Rightarrow> state \<Rightarrow> fault + state" where
  "perform lib (CallSetupLogging c f) st = Inr (snd (SetupLogging lib c f st))"
| "perform lib (CallSetConsoleLevel l) st = Inr (SetConsoleLevel l st)"
| "perform lib (CallSetFileLevel l) st = Inr (SetFileLevel l st)"
| "perform lib (CallSetLogFile p) st = Inr (snd (SetLogFile p st))"
| "perform lib CallInitDefaultLogFile st = Inr (snd (InitDefaultLogFile lib st))"
| "perform lib CallClose st = Inr (Close st)"
| "perform lib (CallLogMessage t l a) st = LogMessage lib t l a st"
| "perform lib (CallDebug t a) st = Debug lib t a st"
| "perform lib (CallInfo t a) st = Info lib t a st"
| "perform lib (CallError t a) st = Error lib t a st"
| "perform lib (CallSuccess t a) st = Success lib t a st"
| "perform lib (CallFail t a) st = Fail lib t a st"

text \<open>A sequence of calls, stopping at the first panic.\<close>

fun run :: "'v stdlib \<Rightarrow> 'v call list \<Rightarrow> state \<Rightarrow> fault + state" where
  "run lib [] st = Inr st"
| "run lib (c # cs) st =
     (case perform lib c st of Inl f \<Rightarrow> Inl f | Inr st1 \<Rightarrow> run lib cs st1)"

text \<open>
  What the loggers are in every state the package can reach: the console logger, when
  set, writes to standard output; the file logger, when set, writes to a file handle
  that was handed out.
\<close>

definition wf_loggers :: "state \<Rightarrow> bool" where
  "wf_loggers st \<longleftrightarrow>
     (case consoleLogger st of None \<Rightarrow> True | Some l \<Rightarrow> out l = Stdout) \<and>
     (case fileLogger st of
        None \<Rightarrow> True
      | Some l \<Rightarrow> (case out l of Stdout \<Rightarrow> False | File h \<Rightarrow> h < length (handles st)))"

text \<open>Values used to instantiate the theorems at concrete inputs.\<close>

definition empty_os :: os_state where
  "empty_os =
     \<lparr>handles = [], closes = [], files = Map.empty, stdout = [],
      unopenable = {''/nope/out.log''},
      executable = Inr ''/usr/local/bin/app'', getwd = Inr ''/home/user''\<rparr>"

definition plain_lib :: "string stdlib" where
  "plain_lib =
     \<lparr>fmt_Sprintf = (\<lambda>format args. format @ concat args),
      filepath_Join = (\<lambda>dir name. dir @ ''/'' @ name),
      filepath_Dir = (\<lambda>path. rev (tl (dropWhile (\<lambda>c. c \<noteq> CHR ''/'') (rev path))))\<rparr>"

definition demo_state :: state where
  "demo_state = snd (SetupLogging plain_lib INFO DEBUG (init_state empty_os))"

text \<open>
  The specification's reading of \<open>SetupLogging\<close>: the composition of the three
  steps, to be compared with the source's function.
\<close>

definition setupLogging_spec ::
    "'v stdlib \<Rightarrow> LogLevel \<Rightarrow> LogLevel \<Rightarrow> state \<Rightarrow> error option \<times> state" where
  "setupLogging_spec lib consoleLogLevel fileLogLevel =
     InitDefaultLogFile lib \<circ> SetFileLevel fileLogLevel \<circ> SetConsoleLevel consoleLogLevel"

text \<open>
  What holds in every state reached from process start: the file handle the package
  holds was handed out by the operating system, nothing was closed while the latch is
  unset, and at most one close was ever made.
\<close>

definition reach_inv :: "state \<Rightarrow> bool" where
  "reach_inv st \<longleftrightarrow>
     (case logFile st of None \<Rightarrow> True | Some h \<Rightarrow> h < length (handles st)) \<and>
     (closeOnce st \<or> closes st = []) \<and> length (closes st) \<le> 1"

section \<open>Auxiliary facts\<close>

lemma LogMessage_total: "\<exists>st'. LogMessage lib format level args st = Inr st'"
  by (auto simp: LogMessage_def Logger_Printf_def Let_def)

lemma Write_frame:
  "state.more (snd (Write wr line st)) = state.more st"
  "handles (snd (Write wr line st)) = handles st"
  "closes (snd (Write wr line st)) = closes st"
  "unopenable (snd (Write wr line st)) = unopenable st"
  "executable (snd (Write wr line st)) = executable st"
  "getwd (snd (Write wr line st)) = getwd st"
  "fileLogger (snd (Write wr line st)) = fileLogger st"
  "consoleLogger (snd (Write wr line st)) = consoleLogger st"
  "fileLevel (snd (Write wr line st)) = fileLevel st"
  "consoleLevel (snd (Write wr line st)) = consoleLevel st"
  "logFile (snd (Write wr line st)) = logFile st"
  "closeOnce (snd (Write wr line st)) = closeOnce st"
  by (auto simp: Write_def split: Writer.splits)

lemma Write_Stdout:
  "stdout (snd (Write Stdout line w)) = stdout w @ [line]"
  "files (snd (Write Stdout line w)) = files w"
  by (simp_all add: Write_def)

lemma Write_File:
  "stdout (snd (Write (File h) line w)) = stdout w"
  "files (snd (Write (File h) line w)) =
     (if is_open w h then (files w)(handles w ! h \<mapsto> file_lines w (handles w ! h) @ [line])
      else files w)"
  by (simp_all add: Write_def)

lemma LogMessage_frame:
  assumes "LogMessage lib format level args st = Inr st'"
  shows "fileLogger st' = fileLogger st \<and> consoleLogger st' = consoleLogger st \<and>
         fileLevel st' = fileLevel st \<and> consoleLevel st' = consoleLevel st \<and>
         logFile st' = logFile st \<and> closeOnce st' = closeOnce st \<and>
         handles st' = handles st \<and> closes st' = closes st \<and>
         unopenable st' = unopenable st \<and> executable st' = executable st \<and>
         getwd st' = getwd st"
  using assms
  by (auto simp: LogMessage_def Logger_Printf_def Let_def Write_frame split: if_splits)

lemma LogMessage_stdout:
  assumes "wf_loggers st" and "LogMessage lib format level args st = Inr st'"
  shows "stdout st' =
     (if shouldLog level (consoleLevel st) \<and> consoleLogger st \<noteq> None
      then stdout st @
        [(if level = DEBUG then Yellow else if level = INFO then Blue
          else if level = ERROR \<or> level = FAIL then Red
          else if level = SUCCESS then Green else Yellow) @
         ''| '' @ levelToString level @ '' |'' @ Reset @ '' '' @
         (if args = [] then format else fmt_Sprintf lib format args)]
      else stdout st)"
proof -
  have c: "\<And>l. consoleLogger st = Some l \<Longrightarrow> out l = Stdout"
    using assms(1) by (simp add: wf_loggers_def)
  have f: "\<And>l. fileLogger st = Some l \<Longrightarrow> \<exists>h. out l = File h"
    using assms(1) by (auto simp: wf_loggers_def split: Writer.splits)
  show ?thesis
  proof (cases "shouldLog level (fileLevel st) \<and> fileLogger st \<noteq> None")
    case True
    then obtain l h where l: "fileLogger st = Some l" "out l = File h"
      using f by auto
    show ?thesis
    proof (cases "shouldLog level (consoleLevel st) \<and> consoleLogger st \<noteq> None")
      case c1: True
      then obtain cl where cl: "consoleLogger st = Some cl" "out cl = Stdout"
        using c by auto
      from assms(2) True c1 l cl show ?thesis
        by (auto simp: LogMessage_def Logger_Printf_def Let_def Write_frame Write_Stdout Write_File)
    next
      case c2: False
      from assms(2) True c2 l show ?thesis
        by (auto simp: LogMessage_def Logger_Printf_def Let_def Write_frame Write_File)
    qed
  next
    case False
    show ?thesis
    proof (cases "shouldLog level (consoleLevel st) \<and> consoleLogger st \<noteq> None")
      case c1: True
      then obtain cl where cl: "consoleLogger st = Some cl" "out cl = Stdout"
        using c by auto
      from assms(2) False c1 cl show ?thesis
        by (auto simp: LogMessage_def Logger_Printf_def Let_def Write_Stdout)
    next
      case c2: False
      from assms(2) False c2 show ?thesis
        by (auto simp: LogMessage_def Let_def)
    qed
  qed
qed

lemma LogMessage_files:
  assumes "wf_loggers st" and "LogMessage lib format level args st = Inr st'"
  shows "files st' =
     (case fileLogger st of
        None \<Rightarrow> files st
      | Some l \<Rightarrow>
          (case out l of
             Stdout \<Rightarrow> files st
           | File h \<Rightarrow>
               if shouldLog level (fileLevel st) \<and> is_open st h
               then (files st)(handles st ! h \<mapsto> file_lines st (handles st ! h) @
                      [''| '' @ levelToString level @ '' | '' @
                       (if args = [] then format else fmt_Sprintf lib format args)])
               else files st))"
proof -
  have c: "\<And>l. consoleLogger st = Some l \<Longrightarrow> out l = Stdout"
    using assms(1) by (simp add: wf_loggers_def)
  have f: "\<And>l. fileLogger st = Some l \<Longrightarrow> \<exists>h. out l = File h"
    using assms(1) by (auto simp: wf_loggers_def split: Writer.splits)
  show ?thesis
  proof (cases "shouldLog level (fileLevel st) \<and> fileLogger st \<noteq> None")
    case True
    then obtain l h where l: "fileLogger st = Some l" "out l = File h"
      using f by auto
    show ?thesis
    proof (cases "shouldLog level (consoleLevel st) \<and> consoleLogger st \<noteq> None")
      case c1: True
      then obtain cl where cl: "consoleLogger st = Some cl" "out cl = Stdout"
        using c by auto
      from assms(2) True c1 l cl show ?thesis
        by (auto simp: LogMessage_def Logger_Printf_def Let_def Write_frame Write_Stdout Write_File)
    next
      case c2: False
      from assms(2) True c2 l show ?thesis
        by (auto simp: LogMessage_def Logger_Printf_def Let_def Write_frame Write_File)
    qed
  next
    case False
    show ?thesis
    proof (cases "shouldLog level (consoleLevel st) \<and> consoleLogger st \<noteq> None")
      case c1: True
      then obtain cl where cl: "consoleLogger st = Some cl" "out cl = Stdout"
        using c by auto
      from assms(2) False c1 cl show ?thesis
        by (auto simp: LogMessage_def Logger_Printf_def Let_def Write_Stdout split: option.splits Writer.splits)
    next
      case c2: False
      from assms(2) False c2 show ?thesis
        by (auto simp: LogMessage_def Let_def split: option.splits Writer.splits)
    qed
  qed
qed

lemma file_lines_files: "files w' = (files w)(p \<mapsto> ls) \<Longrightarrow> file_lines w' p = ls"
  by (simp add: file_lines_def)

lemma levelToString_no_escape: "CHR 0x1B \<notin> set (levelToString level)"
  by (simp add: levelToString_def)

lemmas op_defs = SetupLogging_def SetConsoleLevel_def SetFileLevel_def InitDefaultLogFile_def
  getWorkingDir_def SetLogFile_def os_OpenFile_def init_state_def empty_os_def plain_lib_def
  log_New_def Let_def file_lines_def

lemma demo_state_eq:
  "demo_state = (init_state empty_os)
      \<lparr>handles := [''/usr/local/bin/out.log''],
       files := [''/usr/local/bin/out.log'' \<mapsto> []],
       fileLogger := Some (log_New (File 0) [] log_flags),
       consoleLogger := Some (log_New Stdout [] log_flags),
       fileLevel := DEBUG, consoleLevel := INFO, logFile := Some 0\<rparr>"
  by (simp add: demo_state_def op_defs level_defs)

lemma demo_state_fields:
  "fileLogger demo_state = Some (log_New (File 0) [] log_flags)"
  "consoleLogger demo_state = Some (log_New Stdout [] log_flags)"
  "fileLevel demo_state = DEBUG" "consoleLevel demo_state = INFO"
  "logFile demo_state = Some 0" "closeOnce demo_state = False"
  "handles demo_state = [''/usr/local/bin/out.log'']" "closes demo_state = []"
  "stdout demo_state = []" "file_lines demo_state ''/usr/local/bin/out.log'' = []"
  "is_open demo_state 0" "wf_loggers demo_state"
  unfolding demo_state_eq
  by (simp_all add: is_open_def wf_loggers_def init_state_def empty_os_def log_New_def
      file_lines_def)

lemma out_log_New: "out (log_New wr p f) = wr"
  by (simp add: log_New_def)

lemma levels_distinct:
  "DEBUG \<noteq> INFO" "DEBUG \<noteq> ERROR" "DEBUG \<noteq> SUCCESS" "DEBUG \<noteq> FAIL"
  "INFO \<noteq> DEBUG" "INFO \<noteq> ERROR" "INFO \<noteq> SUCCESS" "INFO \<noteq> FAIL"
  "ERROR \<noteq> DEBUG" "ERROR \<noteq> INFO" "ERROR \<noteq> SUCCESS" "ERROR \<noteq> FAIL"
  "SUCCESS \<noteq> DEBUG" "SUCCESS \<noteq> INFO" "SUCCESS \<noteq> ERROR" "SUCCESS \<noteq> FAIL"
  "FAIL \<noteq> DEBUG" "FAIL \<noteq> INFO" "FAIL \<noteq> ERROR" "FAIL \<noteq> SUCCESS"
  by (simp_all add: level_defs)

lemma levelToString_simps:
  "levelToString DEBUG = ''DEBUG''" "levelToString INFO = ''INFO''"
  "levelToString ERROR = ''ERROR''" "levelToString SUCCESS = ''SUCCESS''"
  "levelToString FAIL = ''FAIL''"
  by (simp_all add: levelToString_def level_defs)

lemma wf_loggers_SetConsoleLevel: "wf_loggers st \<Longrightarrow> wf_loggers (SetConsoleLevel l st)"
  by (auto simp: wf_loggers_def SetConsoleLevel_def log_New_def split: option.splits Writer.splits)

lemma wf_loggers_SetFileLevel: "wf_loggers st \<Longrightarrow> wf_loggers (SetFileLevel l st)"
  by (auto simp: wf_loggers_def SetFileLevel_def split: option.splits Writer.splits)

lemma SetLogFile_levels:
  "consoleLevel (snd (SetLogFile p st)) = consoleLevel st"
  "fileLevel (snd (SetLogFile p st)) = fileLevel st"
  "consoleLogger (snd (SetLogFile p st)) = consoleLogger st"
  "closeOnce (snd (SetLogFile p st)) = closeOnce st"
  "closes (snd (SetLogFile p st)) = closes st"
  "stdout (snd (SetLogFile p st)) = stdout st"
  "unopenable (snd (SetLogFile p st)) = unopenable st"
  "executable (snd (SetLogFile p st)) = executable st"
  "getwd (snd (SetLogFile p st)) = getwd st"
  by (simp_all add: SetLogFile_def os_OpenFile_def Let_def)

lemma InitDefaultLogFile_levels:
  "consoleLevel (snd (InitDefaultLogFile lib st)) = consoleLevel st"
  "fileLevel (snd (InitDefaultLogFile lib st)) = fileLevel st"
  "consoleLogger (snd (InitDefaultLogFile lib st)) = consoleLogger st"
  "closeOnce (snd (InitDefaultLogFile lib st)) = closeOnce st"
  "closes (snd (InitDefaultLogFile lib st)) = closes st"
  "stdout (snd (InitDefaultLogFile lib st)) = stdout st"
  "unopenable (snd (InitDefaultLogFile lib st)) = unopenable st"
  "executable (snd (InitDefaultLogFile lib st)) = executable st"
  "getwd (snd (InitDefaultLogFile lib st)) = getwd st"
  by (simp_all add: InitDefaultLogFile_def SetLogFile_levels split: prod.splits option.splits)

lemma LogMessage_no_args_lib:
  "LogMessage lib format level [] st = LogMessage lib' format level [] st"
  by (simp add: LogMessage_def)

lemma LogMessage_args_subst:
  "args \<noteq> [] \<Longrightarrow>
   LogMessage lib format level args st = LogMessage lib (fmt_Sprintf lib format args) level [] st"
  by (simp add: LogMessage_def)

lemma LogMessage_both_skipped:
  "(fileLogger st = None \<or> \<not> shouldLog level (fileLevel st)) \<Longrightarrow>
   (consoleLogger st = None \<or> \<not> shouldLog level (consoleLevel st)) \<Longrightarrow>
   LogMessage lib format level args st = Inr st"
  by (auto simp: LogMessage_def)

lemma init_state_fields:
  "fileLogger (init_state w) = None" "consoleLogger (init_state w) = None"
  "fileLevel (init_state w) = 0" "consoleLevel (init_state w) = 0"
  "logFile (init_state w) = None" "closeOnce (init_state w) = False"
  "handles (init_state w) = handles w" "closes (init_state w) = closes w"
  "files (init_state w) = files w" "stdout (init_state w) = stdout w"
  "unopenable (init_state w) = unopenable w" "wf_loggers (init_state w)"
  by (simp_all add: init_state_def wf_loggers_def)

lemma SetConsoleLevel_fields:
  "consoleLevel (SetConsoleLevel l st) = l"
  "consoleLogger (SetConsoleLevel l st) = Some (log_New Stdout [] log_flags)"
  "stdout (SetConsoleLevel l st) = stdout st"
  "files (SetConsoleLevel l st) = files st"
  by (simp_all add: SetConsoleLevel_def)

lemma SetFileLevel_fields:
  "fileLevel (SetFileLevel l st) = l"
  "fileLogger (SetFileLevel l st) = fileLogger st"
  "stdout (SetFileLevel l st) = stdout st"
  "files (SetFileLevel l st) = files st"
  "handles (SetFileLevel l st) = handles st"
  "is_open (SetFileLevel l st) h = is_open st h"
  "file_lines (SetFileLevel l st) p = file_lines st p"
  by (simp_all add: SetFileLevel_def is_open_def file_lines_def)

lemma Close_latched: "closeOnce st \<Longrightarrow> Close st = st"
  by (simp add: Close_def)

lemma closeOnce_Close: "closeOnce (Close st)"
  by (simp add: Close_def Let_def)

lemma Close_Close: "Close (Close st) = Close st"
  by (simp add: Close_latched closeOnce_Close)

lemma Close_funpow: "(Close ^^ Suc n) st = Close st"
  by (induction n) (simp_all add: Close_Close)

lemma closes_Close:
  "closes (Close st) =
     (if closeOnce st then closes st
      else case logFile st of None \<Rightarrow> closes st | Some h \<Rightarrow> closes st @ [h])"
  by (simp add: Close_def Let_def File_Close_def split: option.splits)

lemma Close_no_file: "logFile st = None \<Longrightarrow> Close st = st\<lparr>closeOnce := True\<rparr>"
  by (simp add: Close_def)

lemma Close_frame:
  "handles (Close st) = handles st" "logFile (Close st) = logFile st"
  "unopenable (Close st) = unopenable st" "fileLogger (Close st) = fileLogger st"
  "consoleLogger (Close st) = consoleLogger st"
  by (simp_all add: Close_def Let_def File_Close_def split: option.splits)

lemma SetLogFile_handles:
  "handles (snd (SetLogFile p st)) =
     (if p \<in> unopenable st then handles st else handles st @ [p])"
  "logFile (snd (SetLogFile p st)) =
     (if p \<in> unopenable st then None else Some (length (handles st)))"
  "fileLogger (snd (SetLogFile p st)) =
     (if p \<in> unopenable st then fileLogger st
      else Some (log_New (File (length (handles st))) [] log_flags))"
  by (simp_all add: SetLogFile_def os_OpenFile_def Let_def)

lemma perform_total: "\<exists>st'. perform lib c st = Inr st'"
  by (cases c) (simp_all add: LogMessage_total Debug_def Info_def Error_def Success_def Fail_def)

lemma run_total: "\<exists>st'. run lib cs st = Inr st'"
proof (induction cs arbitrary: st)
  case Nil
  show ?case by simp
next
  case (Cons c cs)
  obtain st1 where "perform lib c st = Inr st1"
    using perform_total by blast
  with Cons show ?case by simp
qed

text \<open>What every call keeps: the latch once set, the close trace while it is set, the
  handles handed out so far, and the set of paths that cannot be opened.\<close>

lemma InitDefaultLogFile_cases:
  "snd (InitDefaultLogFile lib st) = st \<or>
   (\<exists>p. snd (InitDefaultLogFile lib st) = snd (SetLogFile p st))"
  by (auto simp: InitDefaultLogFile_def split: prod.splits option.splits)

lemma SetupLogging_cases:
  "snd (SetupLogging lib c f st) = SetFileLevel f (SetConsoleLevel c st) \<or>
   (\<exists>p. snd (SetupLogging lib c f st) = snd (SetLogFile p (SetFileLevel f (SetConsoleLevel c st))))"
  using InitDefaultLogFile_cases [of lib "SetFileLevel f (SetConsoleLevel c st)"]
  by (simp add: SetupLogging_def)

lemma levels_frame:
  "closeOnce (SetFileLevel f st) = closeOnce st" "closes (SetFileLevel f st) = closes st"
  "handles (SetFileLevel f st) = handles st" "unopenable (SetFileLevel f st) = unopenable st"
  "logFile (SetFileLevel f st) = logFile st"
  "closeOnce (SetConsoleLevel c st) = closeOnce st" "closes (SetConsoleLevel c st) = closes st"
  "handles (SetConsoleLevel c st) = handles st" "unopenable (SetConsoleLevel c st) = unopenable st"
  "logFile (SetConsoleLevel c st) = logFile st"
  by (simp_all add: SetFileLevel_def SetConsoleLevel_def)

lemma perform_keeps:
  assumes "perform lib c st = Inr st'"
  shows "(closeOnce st \<longrightarrow> closeOnce st' \<and> closes st' = closes st) \<and>
         (\<exists>ps. handles st' = handles st @ ps) \<and> unopenable st' = unopenable st"
proof (cases c)
  case (CallSetupLogging x y)
  with assms SetupLogging_cases [of lib x y st] show ?thesis
    by (auto simp: SetLogFile_levels SetLogFile_handles levels_frame)
next
  case (CallSetLogFile p)
  with assms show ?thesis by (auto simp: SetLogFile_levels SetLogFile_handles)
next
  case CallInitDefaultLogFile
  with assms InitDefaultLogFile_cases [of lib st] show ?thesis
    by (auto simp: SetLogFile_levels SetLogFile_handles)
next
  case CallClose
  with assms show ?thesis by (auto simp: Close_latched closeOnce_Close Close_frame)
next
  case (CallLogMessage t l a)
  with assms LogMessage_frame [of lib t l a st st'] show ?thesis by simp
next
  case (CallDebug t a)
  with assms LogMessage_frame [of lib t DEBUG a st st'] show ?thesis by (simp add: Debug_def)
next
  case (CallInfo t a)
  with assms LogMessage_frame [of lib t INFO a st st'] show ?thesis by (simp add: Info_def)
next
  case (CallError t a)
  with assms LogMessage_frame [of lib t ERROR a st st'] show ?thesis by (simp add: Error_def)
next
  case (CallSuccess t a)
  with assms LogMessage_frame [of lib t SUCCESS a st st'] show ?thesis by (simp add: Success_def)
next
  case (CallFail t a)
  with assms LogMessage_frame [of lib t FAIL a st st'] show ?thesis by (simp add: Fail_def)
next
  case (CallSetConsoleLevel l)
  with assms show ?thesis by (auto simp: levels_frame)
next
  case (CallSetFileLevel l)
  with assms show ?thesis by (auto simp: levels_frame)
qed

lemma run_keeps:
  assumes "run lib cs st = Inr st'"
  shows "(closeOnce st \<longrightarrow> closeOnce st' \<and> closes st' = closes st) \<and>
         (\<exists>ps. handles st' = handles st @ ps) \<and> unopenable st' = unopenable st"
  using assms
proof (induction cs arbitrary: st)
  case Nil
  then show ?case by simp
next
  case (Cons c cs)
  obtain st1 where p: "perform lib c st = Inr st1"
    using perform_total by blast
  with Cons.prems have r: "run lib cs st1 = Inr st'" by simp
  from perform_keeps [OF p] Cons.IH [OF r] show ?case by auto
qed

lemma reach_inv_init: "closes w = [] \<Longrightarrow> reach_inv (init_state w)"
  by (simp add: reach_inv_def init_state_def)

lemma reach_inv_levels:
  "reach_inv st \<Longrightarrow> reach_inv (SetFileLevel f st)"
  "reach_inv st \<Longrightarrow> reach_inv (SetConsoleLevel c st)"
  by (auto simp: reach_inv_def levels_frame split: option.splits)

lemma reach_inv_SetLogFile: "reach_inv st \<Longrightarrow> reach_inv (snd (SetLogFile p st))"
  by (auto simp: reach_inv_def SetLogFile_levels SetLogFile_handles split: option.splits)

lemma reach_inv_Close: "reach_inv st \<Longrightarrow> reach_inv (Close st)"
  by (auto simp: reach_inv_def closes_Close closeOnce_Close Close_frame split: option.splits)

lemma reach_inv_LogMessage:
  "reach_inv st \<Longrightarrow> LogMessage lib t l a st = Inr st' \<Longrightarrow> reach_inv st'"
  using LogMessage_frame [of lib t l a st st'] by (auto simp: reach_inv_def split: option.splits)

lemma perform_reach_inv:
  assumes "perform lib c st = Inr st'" and "reach_inv st"
  shows "reach_inv st'"
proof (cases c)
  case (CallSetupLogging x y)
  with assms SetupLogging_cases [of lib x y st] show ?thesis
    by (auto simp: reach_inv_levels reach_inv_SetLogFile)
next
  case (CallSetConsoleLevel l)
  with assms show ?thesis by (auto simp: reach_inv_levels)
next
  case (CallSetFileLevel l)
  with assms show ?thesis by (auto simp: reach_inv_levels)
next
  case (CallSetLogFile p)
  with assms show ?thesis by (auto simp: reach_inv_SetLogFile)
next
  case CallInitDefaultLogFile
  with assms InitDefaultLogFile_cases [of lib st] show ?thesis
    by (auto simp: reach_inv_SetLogFile)
next
  case CallClose
  with assms show ?thesis by (auto simp: reach_inv_Close)
next
  case (CallLogMessage t l a)
  with assms show ?thesis by (auto intro: reach_inv_LogMessage)
next
  case (CallDebug t a)
  with assms show ?thesis by (auto simp: Debug_def intro: reach_inv_LogMessage)
next
  case (CallInfo t a)
  with assms show ?thesis by (auto simp: Info_def intro: reach_inv_LogMessage)
next
  case (CallError t a)
  with assms show ?thesis by (auto simp: Error_def intro: reach_inv_LogMessage)
next
  case (CallSuccess t a)
  with assms show ?thesis by (auto simp: Success_def intro: reach_inv_LogMessage)
next
  case (CallFail t a)
  with assms show ?thesis by (auto simp: Fail_def intro: reach_inv_LogMessage)
qed

lemma run_reach_inv:
  assumes "run lib cs st = Inr st'" and "reach_inv st"
  shows "reach_inv st'"
  using assms
proof (induction cs arbitrary: st)
  case Nil
  then show ?case by simp
next
  case (Cons c cs)
  obtain st1 where p: "perform lib c st = Inr st1"
    using perform_total by blast
  with Cons.prems have r: "run lib cs st1 = Inr st'" by simp
  from Cons.IH [OF r perform_reach_inv [OF p Cons.prems(2)]] show ?case .
qed

lemma run_Close_replicate:
  "run lib (replicate n CallClose) st = Inr ((Close ^^ n) st)"
  by (induction n arbitrary: st) (simp_all add: funpow_swap1)

lemma demo_state_run:
  "run plain_lib [CallSetupLogging INFO DEBUG] (init_state empty_os) = Inr demo_state"
  by (simp add: demo_state_def)

lemma demo_state_unopenable: "unopenable demo_state = {''/nope/out.log''}"
  unfolding demo_state_eq by (simp add: init_state_def empty_os_def)

section \<open>The claims\<close>

text \<open>
  C5. For every message and every level, in a state whose loggers are as the package
  sets them: a file sink that is open and whose threshold the level passes gets the
  line \<open>| LEVEL | message\<close>, to which the formatter adds no escape character; a
  console sink whose threshold the level passes gets the colour, \<open>| LEVEL |\<close>, the
  reset code, a space and the message. The colour is yellow for DEBUG, blue for INFO,
  red for ERROR and FAIL, green for SUCCESS and yellow for any other level; the level
  names are the five names and \<open>UNKNOWN\<close> for any other level.
\<close>

theorem LogMessage_line_shapes:
  assumes "wf_loggers st"
  shows "\<exists>st' message color.
     LogMessage lib format level args st = Inr st' \<and>
     message = (if args = [] then format else fmt_Sprintf lib format args) \<and>
     (level = DEBUG \<longrightarrow> color = Yellow \<and> levelToString level = ''DEBUG'') \<and>
     (level = INFO \<longrightarrow> color = Blue \<and> levelToString level = ''INFO'') \<and>
     (level = ERROR \<longrightarrow> color = Red \<and> levelToString level = ''ERROR'') \<and>
     (level = SUCCESS \<longrightarrow> color = Green \<and> levelToString level = ''SUCCESS'') \<and>
     (level = FAIL \<longrightarrow> color = Red \<and> levelToString level = ''FAIL'') \<and>
     (level \<notin> {DEBUG, INFO, ERROR, SUCCESS, FAIL} \<longrightarrow>
        color = Yellow \<and> levelToString level = ''UNKNOWN'') \<and>
     (shouldLog level (fileLevel st) \<and> fileLogger st = Some l \<and> out l = File h \<and>
      is_open st h \<longrightarrow>
        file_lines st' (handles st ! h) =
          file_lines st (handles st ! h) @ [''| '' @ levelToString level @ '' | '' @ message] \<and>
        (CHR 0x1B \<notin> set message \<longrightarrow>
           CHR 0x1B \<notin> set (''| '' @ levelToString level @ '' | '' @ message))) \<and>
     (shouldLog level (consoleLevel st) \<and> consoleLogger st \<noteq> None \<longrightarrow>
        stdout st' =
          stdout st @ [color @ ''| '' @ levelToString level @ '' |'' @ Reset @ '' '' @ message])"
proof -
  obtain st' where r: "LogMessage lib format level args st = Inr st'"
    using LogMessage_total by blast
  let ?message = "if args = [] then format else fmt_Sprintf lib format args"
  let ?color = "if level = DEBUG then Yellow else if level = INFO then Blue
          else if level = ERROR \<or> level = FAIL then Red
          else if level = SUCCESS then Green else Yellow"
  have names: "(level = DEBUG \<longrightarrow> ?color = Yellow \<and> levelToString level = ''DEBUG'') \<and>
     (level = INFO \<longrightarrow> ?color = Blue \<and> levelToString level = ''INFO'') \<and>
     (level = ERROR \<longrightarrow> ?color = Red \<and> levelToString level = ''ERROR'') \<and>
     (level = SUCCESS \<longrightarrow> ?color = Green \<and> levelToString level = ''SUCCESS'') \<and>
     (level = FAIL \<longrightarrow> ?color = Red \<and> levelToString level = ''FAIL'') \<and>
     (level \<notin> {DEBUG, INFO, ERROR, SUCCESS, FAIL} \<longrightarrow>
        ?color = Yellow \<and> levelToString level = ''UNKNOWN'')"
    by (simp add: levelToString_def level_defs)
  have fline: "file_lines st' (handles st ! h) =
          file_lines st (handles st ! h) @ [''| '' @ levelToString level @ '' | '' @ ?message]"
    if "shouldLog level (fileLevel st)" "fileLogger st = Some l" "out l = File h" "is_open st h"
    using LogMessage_files [OF assms r] that by (simp add: file_lines_files)
  have esc: "CHR 0x1B \<notin> set (''| '' @ levelToString level @ '' | '' @ ?message)"
    if "CHR 0x1B \<notin> set ?message"
    using that levelToString_no_escape [of level] by simp
  have cline: "stdout st' =
          stdout st @ [?color @ ''| '' @ levelToString level @ '' |'' @ Reset @ '' '' @ ?message]"
    if "shouldLog level (consoleLevel st)" "consoleLogger st \<noteq> None"
    using LogMessage_stdout [OF assms r] that by simp
  show ?thesis
    apply (rule exI [of _ st'])
    apply (rule exI [of _ ?message])
    apply (rule exI [of _ ?color])
    using r names fline esc cline by blast
qed

theorem LogMessage_line_shapes_witness:
  "wf_loggers demo_state \<and>
   (\<exists>st'. LogMessage plain_lib ''x='' INFO [''42''] demo_state = Inr st' \<and>
      file_lines st' ''/usr/local/bin/out.log'' = [''| INFO | x=42''] \<and>
      stdout st' = [Blue @ ''| INFO |'' @ Reset @ '' x=42''])"
proof -
  have t: "fmt_Sprintf plain_lib ''x='' [''42''] = ''x=42''"
    "shouldLog INFO DEBUG" "shouldLog INFO INFO"
    by (simp_all add: plain_lib_def shouldLog_def level_defs)
  have "\<exists>st'. LogMessage plain_lib ''x='' INFO [''42''] demo_state = Inr st' \<and>
      file_lines st' ''/usr/local/bin/out.log'' = [''| INFO | x=42''] \<and>
      stdout st' = [Blue @ ''| INFO |'' @ Reset @ '' x=42'']"
    using LogMessage_line_shapes [of demo_state plain_lib "''x=''" INFO "[''42'']"
      "log_New (File 0) [] log_flags" 0]
    by (simp add: demo_state_fields t levels_distinct levelToString_simps out_log_New)
  then show ?thesis by (simp add: demo_state_fields)
qed

text \<open>
  C8. For every pair of levels and every state, \<open>SetupLogging\<close> is the sequential
  composition of \<open>SetConsoleLevel\<close>, \<open>SetFileLevel\<close> and \<open>InitDefaultLogFile\<close>,
  as a function and as a sequence of calls; its result is the error, or the success,
  of the last step; both thresholds are set whatever the last step returns.
\<close>

theorem SetupLogging_is_composition:
  "SetupLogging lib consoleLogLevel fileLogLevel st =
     setupLogging_spec lib consoleLogLevel fileLogLevel st \<and>
   fst (SetupLogging lib consoleLogLevel fileLogLevel st) =
     fst (InitDefaultLogFile lib (SetFileLevel fileLogLevel (SetConsoleLevel consoleLogLevel st))) \<and>
   Inr (snd (SetupLogging lib consoleLogLevel fileLogLevel st)) =
     run lib [CallSetConsoleLevel consoleLogLevel, CallSetFileLevel fileLogLevel,
              CallInitDefaultLogFile] st \<and>
   consoleLevel (snd (SetupLogging lib consoleLogLevel fileLogLevel st)) = consoleLogLevel \<and>
   fileLevel (snd (SetupLogging lib consoleLogLevel fileLogLevel st)) = fileLogLevel"
  by (simp add: SetupLogging_def setupLogging_spec_def InitDefaultLogFile_levels
      SetFileLevel_def SetConsoleLevel_def)

text \<open>
  C7. For every level, \<open>SetFileLevel\<close> changes the file threshold and nothing else:
  not the file logger, the file handle, the latch, the console threshold, the console
  logger or anything of the operating system's state. \<open>SetConsoleLevel\<close> sets the
  console threshold and sets the console logger to a fresh logger on standard output
  whatever it was before, and changes nothing else.
\<close>

theorem SetFileLevel_SetConsoleLevel_frame:
  "fileLevel (SetFileLevel level st) = level \<and>
   fileLogger (SetFileLevel level st) = fileLogger st \<and>
   logFile (SetFileLevel level st) = logFile st \<and>
   closeOnce (SetFileLevel level st) = closeOnce st \<and>
   consoleLevel (SetFileLevel level st) = consoleLevel st \<and>
   consoleLogger (SetFileLevel level st) = consoleLogger st \<and>
   os_state.truncate (SetFileLevel level st) = os_state.truncate st \<and>
   consoleLevel (SetConsoleLevel level st) = level \<and>
   consoleLogger (SetConsoleLevel level st) = Some (log_New Stdout [] log_flags) \<and>
   fileLevel (SetConsoleLevel level st) = fileLevel st \<and>
   fileLogger (SetConsoleLevel level st) = fileLogger st \<and>
   logFile (SetConsoleLevel level st) = logFile st \<and>
   closeOnce (SetConsoleLevel level st) = closeOnce st \<and>
   os_state.truncate (SetConsoleLevel level st) = os_state.truncate st"
  by (simp add: SetFileLevel_def SetConsoleLevel_def os_state.truncate_def)

text \<open>
  C9. For every template, level and arguments: when both the file logger and the
  console logger are nil, \<open>LogMessage\<close> and each of the five wrappers return
  without a panic and leave the whole state, so both sinks, as it was.
\<close>

theorem LogMessage_nil_loggers_noop:
  assumes "fileLogger st = None" and "consoleLogger st = None"
  shows "LogMessage lib format level args st = Inr st \<and>
         Debug lib format args st = Inr st \<and>
         Info lib format args st = Inr st \<and>
         Error lib format args st = Inr st \<and>
         Success lib format args st = Inr st \<and>
         Fail lib format args st = Inr st"
  using assms
  by (simp add: LogMessage_def Debug_def Info_def Error_def Success_def Fail_def)

theorem LogMessage_nil_loggers_noop_witness:
  "fileLogger (init_state empty_os) = None \<and> consoleLogger (init_state empty_os) = None \<and>
   LogMessage plain_lib ''100% done: %d'' FAIL [''7''] (init_state empty_os) =
     Inr (init_state empty_os) \<and>
   Debug plain_lib ''50%'' [] (init_state empty_os) = Inr (init_state empty_os) \<and>
   Info plain_lib ''50%'' [] (init_state empty_os) = Inr (init_state empty_os) \<and>
   Error plain_lib ''50%'' [] (init_state empty_os) = Inr (init_state empty_os) \<and>
   Success plain_lib ''50%'' [] (init_state empty_os) = Inr (init_state empty_os) \<and>
   Fail plain_lib ''50%'' [] (init_state empty_os) = Inr (init_state empty_os)"
proof -
  have n: "fileLogger (init_state empty_os) = None" "consoleLogger (init_state empty_os) = None"
    by (simp_all add: init_state_def)
  show ?thesis
    using LogMessage_nil_loggers_noop [OF n, of plain_lib "''100% done: %d''" FAIL "[''7'']"]
      LogMessage_nil_loggers_noop [OF n, of plain_lib "''50%''" FAIL "[]"] n
    by simp
qed

text \<open>
  C3. For every template, level and state: with no variadic argument the result of
  \<open>LogMessage\<close> does not depend on \<open>fmt.Sprintf\<close> at all (formatting is skipped),
  the call returns without a panic, and the message written is the template itself,
  whatever characters it holds: the file line is \<open>| LEVEL | template\<close> and the console
  line ends with the template. With at least one argument the call does what a call
  with no argument does on the template \<open>fmt.Sprintf(format, args...)\<close>. The five
  wrappers behave the same way at their fixed levels.
\<close>

theorem LogMessage_zero_args_verbatim:
  "LogMessage lib format level [] st = LogMessage lib' format level [] st \<and>
   (\<exists>st'. LogMessage lib format level [] st = Inr st' \<and>
      (wf_loggers st \<longrightarrow>
         (shouldLog level (consoleLevel st) \<and> consoleLogger st \<noteq> None \<longrightarrow>
            (\<exists>pre. stdout st' = stdout st @ [pre @ format])) \<and>
         (shouldLog level (fileLevel st) \<and> fileLogger st = Some l \<and> out l = File h \<and>
          is_open st h \<longrightarrow>
            file_lines st' (handles st ! h) =
              file_lines st (handles st ! h) @ [''| '' @ levelToString level @ '' | '' @ format]))) \<and>
   (args \<noteq> [] \<longrightarrow>
      LogMessage lib format level args st =
        LogMessage lib (fmt_Sprintf lib format args) level [] st) \<and>
   Debug lib format [] st = LogMessage lib' format DEBUG [] st \<and>
   Info lib format [] st = LogMessage lib' format INFO [] st \<and>
   Error lib format [] st = LogMessage lib' format ERROR [] st \<and>
   Success lib format [] st = LogMessage lib' format SUCCESS [] st \<and>
   Fail lib format [] st = LogMessage lib' format FAIL [] st \<and>
   (args \<noteq> [] \<longrightarrow>
      Debug lib format args st = LogMessage lib (fmt_Sprintf lib format args) DEBUG [] st \<and>
      Info lib format args st = LogMessage lib (fmt_Sprintf lib format args) INFO [] st \<and>
      Error lib format args st = LogMessage lib (fmt_Sprintf lib format args) ERROR [] st \<and>
      Success lib format args st = LogMessage lib (fmt_Sprintf lib format args) SUCCESS [] st \<and>
      Fail lib format args st = LogMessage lib (fmt_Sprintf lib format args) FAIL [] st)"
proof -
  obtain st' where r: "LogMessage lib format level [] st = Inr st'"
    using LogMessage_total by blast
  have cline: "\<exists>pre. stdout st' = stdout st @ [pre @ format]"
    if "wf_loggers st" "shouldLog level (consoleLevel st)" "consoleLogger st \<noteq> None"
  proof -
    have "stdout st' = stdout st @
        [((if level = DEBUG then Yellow else if level = INFO then Blue
          else if level = ERROR \<or> level = FAIL then Red
          else if level = SUCCESS then Green else Yellow) @
         ''| '' @ levelToString level @ '' |'' @ Reset @ '' '') @ format]"
      using LogMessage_stdout [OF that(1) r] that(2,3) by simp
    then show ?thesis by blast
  qed
  have fline: "file_lines st' (handles st ! h) =
      file_lines st (handles st ! h) @ [''| '' @ levelToString level @ '' | '' @ format]"
    if "wf_loggers st" "shouldLog level (fileLevel st)" "fileLogger st = Some l"
      "out l = File h" "is_open st h"
    using LogMessage_files [OF that(1) r] that(2-) by (simp add: file_lines_files)
  have w: "Debug lib format [] st = LogMessage lib' format DEBUG [] st"
    "Info lib format [] st = LogMessage lib' format INFO [] st"
    "Error lib format [] st = LogMessage lib' format ERROR [] st"
    "Success lib format [] st = LogMessage lib' format SUCCESS [] st"
    "Fail lib format [] st = LogMessage lib' format FAIL [] st"
    by (simp_all add: Debug_def Info_def Error_def Success_def Fail_def LogMessage_def)
  have wa: "args \<noteq> [] \<Longrightarrow>
      Debug lib format args st = LogMessage lib (fmt_Sprintf lib format args) DEBUG [] st \<and>
      Info lib format args st = LogMessage lib (fmt_Sprintf lib format args) INFO [] st \<and>
      Error lib format args st = LogMessage lib (fmt_Sprintf lib format args) ERROR [] st \<and>
      Success lib format args st = LogMessage lib (fmt_Sprintf lib format args) SUCCESS [] st \<and>
      Fail lib format args st = LogMessage lib (fmt_Sprintf lib format args) FAIL [] st"
    by (simp add: Debug_def Info_def Error_def Success_def Fail_def LogMessage_def)
  have ex: "\<exists>st'. LogMessage lib format level [] st = Inr st' \<and>
      (wf_loggers st \<longrightarrow>
         (shouldLog level (consoleLevel st) \<and> consoleLogger st \<noteq> None \<longrightarrow>
            (\<exists>pre. stdout st' = stdout st @ [pre @ format])) \<and>
         (shouldLog level (fileLevel st) \<and> fileLogger st = Some l \<and> out l = File h \<and>
          is_open st h \<longrightarrow>
            file_lines st' (handles st ! h) =
              file_lines st (handles st ! h) @ [''| '' @ levelToString level @ '' | '' @ format]))"
    using r cline fline by blast
  show ?thesis
    using ex w wa LogMessage_no_args_lib [of lib format level st lib']
      LogMessage_args_subst [of args lib format level st]
    by blast
qed

theorem LogMessage_zero_args_verbatim_witness:
  "[''42''] \<noteq> ([] :: string list) \<and> wf_loggers demo_state \<and>
   (\<exists>st'. LogMessage plain_lib ''100% sure'' INFO [] demo_state = Inr st' \<and>
      (\<exists>pre. stdout st' = [pre @ ''100% sure'']) \<and>
      file_lines st' ''/usr/local/bin/out.log'' = [''| INFO | 100% sure'']) \<and>
   LogMessage plain_lib ''x='' INFO [''42''] demo_state =
     LogMessage plain_lib ''x=42'' INFO [] demo_state \<and>
   Fail plain_lib ''x='' [''42''] demo_state = LogMessage plain_lib ''x=42'' FAIL [] demo_state"
proof -
  have t: "fmt_Sprintf plain_lib ''x='' [''42''] = ''x=42''"
    "shouldLog INFO DEBUG" "shouldLog INFO INFO"
    by (simp_all add: plain_lib_def shouldLog_def level_defs)
  have a: "\<exists>st'. LogMessage plain_lib ''100% sure'' INFO [] demo_state = Inr st' \<and>
      (\<exists>pre. stdout st' = [pre @ ''100% sure'']) \<and>
      file_lines st' ''/usr/local/bin/out.log'' = [''| INFO | 100% sure'']"
    using LogMessage_zero_args_verbatim [of plain_lib "''100% sure''" INFO demo_state plain_lib
      "log_New (File 0) [] log_flags" 0 "[]"]
    by (simp add: demo_state_fields t levelToString_simps out_log_New)
  have b: "LogMessage plain_lib ''x='' INFO [''42''] demo_state =
     LogMessage plain_lib ''x=42'' INFO [] demo_state \<and>
   Fail plain_lib ''x='' [''42''] demo_state = LogMessage plain_lib ''x=42'' FAIL [] demo_state"
    using LogMessage_zero_args_verbatim [of plain_lib "''x=''" INFO demo_state plain_lib
      "log_New (File 0) [] log_flags" 0 "[''42'']"]
    by (simp add: t)
  from a b show ?thesis by (simp add: demo_state_fields)
qed

text \<open>
  C6. For every call of \<open>LogMessage\<close>, in a state whose loggers are as the package
  sets them: the call returns without a panic (it has no error result); a file sink
  that is nil or whose threshold the level misses gets nothing, and so does such a
  console sink; when both are skipped the state is unchanged. There is no fallback:
  what the console gets is the same whatever the file logger and file threshold are,
  and what the files get is the same whatever the console logger and threshold are.
  No package variable, handle or close trace changes.
\<close>

theorem LogMessage_silent_skip:
  assumes "wf_loggers st"
  shows "\<exists>st'. LogMessage lib format level args st = Inr st' \<and>
     (fileLogger st = None \<or> \<not> shouldLog level (fileLevel st) \<longrightarrow> files st' = files st) \<and>
     (consoleLogger st = None \<or> \<not> shouldLog level (consoleLevel st) \<longrightarrow>
        stdout st' = stdout st) \<and>
     ((fileLogger st = None \<or> \<not> shouldLog level (fileLevel st)) \<and>
      (consoleLogger st = None \<or> \<not> shouldLog level (consoleLevel st)) \<longrightarrow> st' = st) \<and>
     (\<forall>fl fv. wf_loggers (st\<lparr>fileLogger := fl, fileLevel := fv\<rparr>) \<longrightarrow>
        (\<exists>st''. LogMessage lib format level args (st\<lparr>fileLogger := fl, fileLevel := fv\<rparr>) =
                 Inr st'' \<and> stdout st'' = stdout st')) \<and>
     (\<forall>cl cv. wf_loggers (st\<lparr>consoleLogger := cl, consoleLevel := cv\<rparr>) \<longrightarrow>
        (\<exists>st''. LogMessage lib format level args (st\<lparr>consoleLogger := cl, consoleLevel := cv\<rparr>) =
                 Inr st'' \<and> files st'' = files st')) \<and>
     fileLogger st' = fileLogger st \<and> consoleLogger st' = consoleLogger st \<and>
     fileLevel st' = fileLevel st \<and> consoleLevel st' = consoleLevel st \<and>
     logFile st' = logFile st \<and> closeOnce st' = closeOnce st \<and>
     handles st' = handles st \<and> closes st' = closes st"
proof -
  obtain st' where r: "LogMessage lib format level args st = Inr st'"
    using LogMessage_total by blast
  have f: "files st' = files st" if "fileLogger st = None \<or> \<not> shouldLog level (fileLevel st)"
    using LogMessage_files [OF assms r] that by (auto split: option.splits Writer.splits)
  have c: "stdout st' = stdout st"
    if "consoleLogger st = None \<or> \<not> shouldLog level (consoleLevel st)"
    using LogMessage_stdout [OF assms r] that by auto
  have b: "st' = st"
    if "fileLogger st = None \<or> \<not> shouldLog level (fileLevel st)"
      "consoleLogger st = None \<or> \<not> shouldLog level (consoleLevel st)"
    using LogMessage_both_skipped [OF that, of lib format args] r by simp
  have ic: "\<exists>st''. LogMessage lib format level args (st\<lparr>fileLogger := fl, fileLevel := fv\<rparr>) =
                 Inr st'' \<and> stdout st'' = stdout st'"
    if w: "wf_loggers (st\<lparr>fileLogger := fl, fileLevel := fv\<rparr>)" for fl fv
  proof -
    obtain st'' where r2:
      "LogMessage lib format level args (st\<lparr>fileLogger := fl, fileLevel := fv\<rparr>) = Inr st''"
      using LogMessage_total by blast
    have "stdout st'' = stdout st'"
      using LogMessage_stdout [OF w r2] LogMessage_stdout [OF assms r] by simp
    with r2 show ?thesis by blast
  qed
  have "if": "\<exists>st''. LogMessage lib format level args (st\<lparr>consoleLogger := cl, consoleLevel := cv\<rparr>) =
                 Inr st'' \<and> files st'' = files st'"
    if w: "wf_loggers (st\<lparr>consoleLogger := cl, consoleLevel := cv\<rparr>)" for cl cv
  proof -
    obtain st'' where r2:
      "LogMessage lib format level args (st\<lparr>consoleLogger := cl, consoleLevel := cv\<rparr>) = Inr st''"
      using LogMessage_total by blast
    have "files st'' = files st'"
      using LogMessage_files [OF w r2] LogMessage_files [OF assms r]
      by (auto simp: is_open_def file_lines_def split: option.splits Writer.splits)
    with r2 show ?thesis by blast
  qed
  show ?thesis
    apply (rule exI [of _ st'])
    using r f c b ic "if" LogMessage_frame [OF r] by blast
qed

theorem LogMessage_silent_skip_witness:
  "wf_loggers demo_state \<and> \<not> shouldLog DEBUG (consoleLevel demo_state) \<and>
   (\<exists>st'. LogMessage plain_lib ''m'' DEBUG [] demo_state = Inr st' \<and>
      stdout st' = stdout demo_state \<and> closes st' = closes demo_state) \<and>
   wf_loggers (init_state empty_os) \<and> fileLogger (init_state empty_os) = None \<and>
   consoleLogger (init_state empty_os) = None \<and>
   (\<exists>st'. LogMessage plain_lib ''m'' FAIL [] (init_state empty_os) = Inr st' \<and>
      files st' = files (init_state empty_os) \<and> st' = init_state empty_os) \<and>
   wf_loggers (demo_state\<lparr>fileLogger := None, fileLevel := FAIL\<rparr>) \<and>
   (\<exists>st' st''. LogMessage plain_lib ''m'' INFO [] demo_state = Inr st' \<and>
      LogMessage plain_lib ''m'' INFO [] (demo_state\<lparr>fileLogger := None, fileLevel := FAIL\<rparr>) =
        Inr st'' \<and>
      stdout st'' = stdout st')"
proof -
  have wf: "wf_loggers demo_state" by (rule demo_state_fields)
  have wf0: "wf_loggers (init_state empty_os)" by (rule init_state_fields)
  have wf2: "wf_loggers (demo_state\<lparr>fileLogger := None, fileLevel := FAIL\<rparr>)"
    using wf by (simp add: wf_loggers_def)
  have n: "\<not> shouldLog DEBUG (consoleLevel demo_state)"
    by (simp add: demo_state_fields shouldLog_def level_defs)
  have a: "\<exists>st'. LogMessage plain_lib ''m'' DEBUG [] demo_state = Inr st' \<and>
      stdout st' = stdout demo_state \<and> closes st' = closes demo_state"
    using LogMessage_silent_skip [OF wf, of plain_lib "''m''" DEBUG "[]"] n by blast
  have b: "\<exists>st'. LogMessage plain_lib ''m'' FAIL [] (init_state empty_os) = Inr st' \<and>
      files st' = files (init_state empty_os) \<and> st' = init_state empty_os"
    using LogMessage_silent_skip [OF wf0, of plain_lib "''m''" FAIL "[]"]
      init_state_fields(1,2) [of empty_os]
    by blast
  have c: "\<exists>st' st''. LogMessage plain_lib ''m'' INFO [] demo_state = Inr st' \<and>
      LogMessage plain_lib ''m'' INFO [] (demo_state\<lparr>fileLogger := None, fileLevel := FAIL\<rparr>) =
        Inr st'' \<and>
      stdout st'' = stdout st'"
    using LogMessage_silent_skip [OF wf, of plain_lib "''m''" INFO "[]"] wf2 by blast
  show ?thesis
    using wf wf0 wf2 n a b c init_state_fields(1,2) [of empty_os] by blast
qed

text \<open>
  C2. The five levels are ordered DEBUG < INFO < ERROR < SUCCESS < FAIL, and
  \<open>shouldLog\<close> is the comparison of the ranks. In a state whose loggers are as the
  package sets them, a configured console sink gets output exactly when the level is
  at least the console threshold, and an open file sink exactly when it is at least the
  file threshold. For all levels L1 < L2 \<le> L3: after the threshold of a sink is set to
  L2, logging at L1 writes nothing to that sink, and logging at L3 appends one line to
  it (the console sink, which \<open>SetConsoleLevel\<close> sets up; the file sink when a file
  is open).
\<close>

theorem shouldLog_threshold:
  "DEBUG < INFO \<and> INFO < ERROR \<and> ERROR < SUCCESS \<and> SUCCESS < FAIL \<and>
   (shouldLog msgLevel minLevel \<longleftrightarrow> msgLevel \<ge> minLevel) \<and>
   (wf_loggers st \<longrightarrow>
     (\<exists>st'. LogMessage lib format level args st = Inr st' \<and>
        (consoleLogger st \<noteq> None \<longrightarrow>
           (stdout st' \<noteq> stdout st \<longleftrightarrow> level \<ge> consoleLevel st)) \<and>
        (fileLogger st = Some l \<and> out l = File h \<and> is_open st h \<longrightarrow>
           (file_lines st' (handles st ! h) \<noteq> file_lines st (handles st ! h) \<longleftrightarrow>
            level \<ge> fileLevel st))) \<and>
     (L1 < L2 \<longrightarrow>
        (\<exists>st'. LogMessage lib format L1 args (SetConsoleLevel L2 st) = Inr st' \<and>
           stdout st' = stdout st) \<and>
        (\<exists>st'. LogMessage lib format L1 args (SetFileLevel L2 st) = Inr st' \<and>
           files st' = files st)) \<and>
     (L2 \<le> L3 \<longrightarrow>
        (\<exists>st' line. LogMessage lib format L3 args (SetConsoleLevel L2 st) = Inr st' \<and>
           stdout st' = stdout st @ [line]) \<and>
        (fileLogger st = Some l \<and> out l = File h \<and> is_open st h \<longrightarrow>
           (\<exists>st' line. LogMessage lib format L3 args (SetFileLevel L2 st) = Inr st' \<and>
              file_lines st' (handles st ! h) = file_lines st (handles st ! h) @ [line]))))"
proof -
  have ord: "DEBUG < INFO \<and> INFO < ERROR \<and> ERROR < SUCCESS \<and> SUCCESS < FAIL"
    by (simp add: level_defs)
  have sl: "shouldLog msgLevel minLevel \<longleftrightarrow> msgLevel \<ge> minLevel"
    by (simp add: shouldLog_def)
  have iff: "\<exists>st'. LogMessage lib format level args st = Inr st' \<and>
        (consoleLogger st \<noteq> None \<longrightarrow>
           (stdout st' \<noteq> stdout st \<longleftrightarrow> level \<ge> consoleLevel st)) \<and>
        (fileLogger st = Some l \<and> out l = File h \<and> is_open st h \<longrightarrow>
           (file_lines st' (handles st ! h) \<noteq> file_lines st (handles st ! h) \<longleftrightarrow>
            level \<ge> fileLevel st))"
    if w: "wf_loggers st"
  proof -
    obtain st' where r: "LogMessage lib format level args st = Inr st'"
      using LogMessage_total by blast
    have c: "stdout st' \<noteq> stdout st \<longleftrightarrow> level \<ge> consoleLevel st" if "consoleLogger st \<noteq> None"
      using LogMessage_stdout [OF w r] that by (simp add: shouldLog_def)
    have f: "file_lines st' (handles st ! h) \<noteq> file_lines st (handles st ! h) \<longleftrightarrow>
            level \<ge> fileLevel st"
      if "fileLogger st = Some l" "out l = File h" "is_open st h"
      using LogMessage_files [OF w r] that by (simp add: shouldLog_def file_lines_def)
    from r c f show ?thesis by blast
  qed
  have below: "(\<exists>st'. LogMessage lib format L1 args (SetConsoleLevel L2 st) = Inr st' \<and>
           stdout st' = stdout st) \<and>
        (\<exists>st'. LogMessage lib format L1 args (SetFileLevel L2 st) = Inr st' \<and>
           files st' = files st)"
    if w: "wf_loggers st" and lt: "L1 < L2"
  proof -
    obtain s1 where r1: "LogMessage lib format L1 args (SetConsoleLevel L2 st) = Inr s1"
      using LogMessage_total by blast
    obtain s2 where r2: "LogMessage lib format L1 args (SetFileLevel L2 st) = Inr s2"
      using LogMessage_total by blast
    have "stdout s1 = stdout st"
      using LogMessage_stdout [OF wf_loggers_SetConsoleLevel [OF w] r1] lt
      by (simp add: SetConsoleLevel_fields shouldLog_def)
    moreover have "files s2 = files st"
      using LogMessage_files [OF wf_loggers_SetFileLevel [OF w] r2] lt
      by (simp add: SetFileLevel_fields shouldLog_def split: option.splits Writer.splits)
    ultimately show ?thesis using r1 r2 by blast
  qed
  have above_c: "\<exists>st' line. LogMessage lib format L3 args (SetConsoleLevel L2 st) = Inr st' \<and>
           stdout st' = stdout st @ [line]"
    if w: "wf_loggers st" and le: "L2 \<le> L3"
  proof -
    obtain s1 where r1: "LogMessage lib format L3 args (SetConsoleLevel L2 st) = Inr s1"
      using LogMessage_total by blast
    show ?thesis
      using LogMessage_stdout [OF wf_loggers_SetConsoleLevel [OF w] r1] le r1
      by (simp add: SetConsoleLevel_fields shouldLog_def)
  qed
  have above_f: "\<exists>st' line. LogMessage lib format L3 args (SetFileLevel L2 st) = Inr st' \<and>
              file_lines st' (handles st ! h) = file_lines st (handles st ! h) @ [line]"
    if w: "wf_loggers st" and le: "L2 \<le> L3"
      and fl: "fileLogger st = Some l" "out l = File h" "is_open st h"
  proof -
    obtain s2 where r2: "LogMessage lib format L3 args (SetFileLevel L2 st) = Inr s2"
      using LogMessage_total by blast
    have "file_lines s2 (handles st ! h) = file_lines st (handles st ! h) @
        [''| '' @ levelToString L3 @ '' | '' @
           (if args = [] then format else fmt_Sprintf lib format args)]"
      using LogMessage_files [OF wf_loggers_SetFileLevel [OF w] r2] le fl
      by (simp add: SetFileLevel_fields shouldLog_def file_lines_files)
    with r2 show ?thesis by blast
  qed
  show ?thesis
    using ord sl iff below above_c above_f by blast
qed

theorem shouldLog_threshold_witness:
  "wf_loggers demo_state \<and> DEBUG < ERROR \<and> ERROR \<le> FAIL \<and>
   fileLogger demo_state = Some (log_New (File 0) [] log_flags) \<and>
   out (log_New (File 0) [] log_flags) = File 0 \<and> is_open demo_state 0 \<and>
   (\<exists>st'. LogMessage plain_lib ''m'' DEBUG [] (SetConsoleLevel ERROR demo_state) = Inr st' \<and>
      stdout st' = []) \<and>
   (\<exists>st'. LogMessage plain_lib ''m'' DEBUG [] (SetFileLevel ERROR demo_state) = Inr st' \<and>
      files st' = files demo_state) \<and>
   (\<exists>st' line. LogMessage plain_lib ''m'' FAIL [] (SetConsoleLevel ERROR demo_state) = Inr st' \<and>
      stdout st' = [line]) \<and>
   (\<exists>st' line. LogMessage plain_lib ''m'' FAIL [] (SetFileLevel ERROR demo_state) = Inr st' \<and>
      file_lines st' ''/usr/local/bin/out.log'' = [line])"
proof -
  have o: "DEBUG < ERROR" "ERROR \<le> FAIL" by (simp_all add: level_defs)
  show ?thesis
    using shouldLog_threshold [of FAIL DEBUG demo_state plain_lib "''m''" INFO "[]"
        "log_New (File 0) [] log_flags" 0 DEBUG ERROR FAIL] o
    by (simp add: demo_state_fields out_log_New)
qed

text \<open>
  C4. \<open>Close\<close> has no error result, and any number of calls of \<open>Close\<close> in a
  row returns without a panic. Any number of calls, at least one, does what one call
  does; a call with the latch set changes nothing; a call with no file
  open only sets the latch. With the latch unset and a file handle held, any number of
  calls makes exactly one close of that handle. In every state reached from process
  start, at most one close was ever made (so no handle is closed twice), and the
  handle that \<open>Close\<close> closes is open, so that the close succeeds.
\<close>

theorem Close_idempotent_exactly_once:
  "(Close ^^ Suc n) st = Close st \<and> closeOnce (Close st) \<and>
   (closeOnce st \<longrightarrow> Close st = st) \<and>
   (logFile st = None \<longrightarrow> Close st = st\<lparr>closeOnce := True\<rparr>) \<and>
   (\<not> closeOnce st \<and> logFile st = Some h \<longrightarrow>
      closes ((Close ^^ Suc n) st) = closes st @ [h]) \<and>
   run lib (replicate n CallClose) st = Inr ((Close ^^ n) st) \<and>
   (closes w = [] \<and> run lib cs (init_state w) = Inr st \<longrightarrow>
      length (closes ((Close ^^ n) st)) \<le> 1 \<and>
      (\<not> closeOnce st \<and> logFile st = Some h \<longrightarrow>
         is_open st h \<and> fst (File_Close h st) = None \<and> closes ((Close ^^ Suc n) st) = [h]))"
proof -
  have once: "\<not> closeOnce st \<and> logFile st = Some h \<longrightarrow>
      closes ((Close ^^ Suc n) st) = closes st @ [h]"
    unfolding Close_funpow by (simp add: closes_Close)
  have reach: "length (closes ((Close ^^ n) st)) \<le> 1 \<and>
      (\<not> closeOnce st \<and> logFile st = Some h \<longrightarrow>
         is_open st h \<and> fst (File_Close h st) = None \<and> closes ((Close ^^ Suc n) st) = [h])"
    if w: "closes w = []" and r: "run lib cs (init_state w) = Inr st"
  proof -
    have i: "reach_inv st"
      using run_reach_inv [OF r reach_inv_init [OF w]] .
    have "reach_inv ((Close ^^ n) st)"
      by (cases n) (simp_all only: funpow_0 Close_funpow i reach_inv_Close [OF i])
    then have l: "length (closes ((Close ^^ n) st)) \<le> 1"
      by (simp add: reach_inv_def)
    have o: "is_open st h \<and> fst (File_Close h st) = None \<and> closes ((Close ^^ Suc n) st) = [h]"
      if "\<not> closeOnce st" "logFile st = Some h"
      using i that unfolding Close_funpow
      by (auto simp: reach_inv_def is_open_def File_Close_def closes_Close split: option.splits)
    from l o show ?thesis by blast
  qed
  show ?thesis
    using Close_funpow [of n st] closeOnce_Close [of st] Close_latched [of st]
      Close_no_file [of st] once run_Close_replicate [of lib n st] reach
    by blast
qed

theorem Close_idempotent_exactly_once_witness:
  "closes empty_os = [] \<and>
   run plain_lib [CallSetupLogging INFO DEBUG] (init_state empty_os) = Inr demo_state \<and>
   \<not> closeOnce demo_state \<and> logFile demo_state = Some 0 \<and>
   closes ((Close ^^ Suc 2) demo_state) = [0] \<and> is_open demo_state 0 \<and>
   fst (File_Close 0 demo_state) = None \<and>
   length (closes ((Close ^^ 2) demo_state)) \<le> 1 \<and>
   closeOnce (Close demo_state) \<and> Close (Close demo_state) = Close demo_state \<and>
   logFile (init_state empty_os) = None \<and>
   Close (init_state empty_os) = (init_state empty_os)\<lparr>closeOnce := True\<rparr>"
proof -
  have e: "closes empty_os = []" by (simp add: empty_os_def)
  have d: "\<not> closeOnce demo_state" "logFile demo_state = Some 0"
    by (simp_all add: demo_state_fields)
  have i: "logFile (init_state empty_os) = None" by (rule init_state_fields)
  have l: "closeOnce (Close demo_state)" by (rule closeOnce_Close)
  have a: "closes ((Close ^^ Suc 2) demo_state) = [0] \<and> is_open demo_state 0 \<and>
      fst (File_Close 0 demo_state) = None \<and> length (closes ((Close ^^ 2) demo_state)) \<le> 1"
    using Close_idempotent_exactly_once [where n = 2 and st = demo_state and h = 0
        and lib = plain_lib and cs = "[CallSetupLogging INFO DEBUG]" and w = empty_os] e d demo_state_run
    by blast
  have b: "Close (Close demo_state) = Close demo_state"
    using Close_idempotent_exactly_once [where n = 0 and st = "Close demo_state" and h = 0
        and lib = plain_lib and cs = "[]" and w = empty_os] l
    by blast
  have c: "Close (init_state empty_os) = (init_state empty_os)\<lparr>closeOnce := True\<rparr>"
    using Close_idempotent_exactly_once [where n = 0 and st = "init_state empty_os" and h = 0
        and lib = plain_lib and cs = "[]" and w = empty_os] i
    by blast
  from a b c d e i l demo_state_run show ?thesis by blast
qed

text \<open>
  C10. After one call of \<open>Close\<close>, in any state, and then any sequence of calls:
  the latch is still set, a further \<open>Close\<close> changes nothing, and the close trace
  is what the first \<open>Close\<close> left, so no file handle is closed any more. In
  particular a file that \<open>SetLogFile\<close> opens after the first \<open>Close\<close> becomes the
  package's handle and is still open after any later calls and a final \<open>Close\<close>.
\<close>

theorem Close_latch_is_process_wide:
  "\<exists>st'. run lib cs (Close st) = Inr st' \<and> closeOnce st' \<and> Close st' = st' \<and>
     closes st' = closes (Close st) \<and>
     (p \<notin> unopenable st \<and> length (handles st) \<notin> set (closes (Close st)) \<longrightarrow>
        logFile (snd (SetLogFile p (Close st))) = Some (length (handles st)) \<and>
        (\<exists>st''. run lib (CallSetLogFile p # cs @ [CallClose]) (Close st) = Inr st'' \<and>
           is_open st'' (length (handles st)) \<and> handles st'' ! length (handles st) = p))"
proof -
  obtain st' where r: "run lib cs (Close st) = Inr st'"
    using run_total by blast
  have k: "closeOnce st' \<and> closes st' = closes (Close st)"
    using run_keeps [OF r] closeOnce_Close [of st] by simp
  have later: "logFile (snd (SetLogFile p (Close st))) = Some (length (handles st)) \<and>
        (\<exists>st''. run lib (CallSetLogFile p # cs @ [CallClose]) (Close st) = Inr st'' \<and>
           is_open st'' (length (handles st)) \<and> handles st'' ! length (handles st) = p)"
    if p: "p \<notin> unopenable st" and h: "length (handles st) \<notin> set (closes (Close st))"
  proof -
    let ?s1 = "snd (SetLogFile p (Close st))"
    have s1: "handles ?s1 = handles st @ [p]" "closeOnce ?s1" "closes ?s1 = closes (Close st)"
      "logFile ?s1 = Some (length (handles st))"
      using p by (simp_all add: SetLogFile_handles SetLogFile_levels Close_frame closeOnce_Close)
    obtain st'' where r2: "run lib (cs @ [CallClose]) ?s1 = Inr st''"
      using run_total by blast
    from run_keeps [OF r2] s1 obtain ps where
      k2: "closes st'' = closes (Close st)" "handles st'' = (handles st @ [p]) @ ps"
      by auto
    have "is_open st'' (length (handles st))"
      using k2 h by (simp add: is_open_def)
    moreover have "handles st'' ! length (handles st) = p"
      using k2 by (simp add: nth_append)
    moreover have "run lib (CallSetLogFile p # cs @ [CallClose]) (Close st) = Inr st''"
      using r2 by simp
    ultimately show ?thesis using s1(4) by blast
  qed
  show ?thesis
    using r k Close_latched [of st'] later by blast
qed

theorem Close_latch_is_process_wide_witness:
  "''b.log'' \<notin> unopenable demo_state \<and>
   length (handles demo_state) \<notin> set (closes (Close demo_state)) \<and>
   length (handles demo_state) = 1 \<and>
   (\<exists>st'. run plain_lib [CallInfo ''hi'' [], CallClose] (Close demo_state) = Inr st' \<and>
      closeOnce st' \<and> Close st' = st' \<and> closes st' = [0]) \<and>
   (\<exists>st''. run plain_lib (CallSetLogFile ''b.log'' # [CallInfo ''hi'' [], CallClose] @ [CallClose])
             (Close demo_state) = Inr st'' \<and>
      is_open st'' (length (handles demo_state)) \<and>
      handles st'' ! length (handles demo_state) = ''b.log'')"
proof -
  have c: "closes (Close demo_state) = [0]"
    by (simp add: closes_Close demo_state_fields)
  have l: "length (handles demo_state) = 1"
    by (simp add: demo_state_fields)
  have h: "''b.log'' \<notin> unopenable demo_state"
    "length (handles demo_state) \<notin> set (closes (Close demo_state))"
    by (simp_all add: c demo_state_unopenable demo_state_fields)
  have "(\<exists>st'. run plain_lib [CallInfo ''hi'' [], CallClose] (Close demo_state) = Inr st' \<and>
      closeOnce st' \<and> Close st' = st' \<and> closes st' = closes (Close demo_state)) \<and>
   (\<exists>st''. run plain_lib (CallSetLogFile ''b.log'' # [CallInfo ''hi'' [], CallClose] @ [CallClose])
             (Close demo_state) = Inr st'' \<and>
      is_open st'' (length (handles demo_state)) \<and>
      handles st'' ! length (handles demo_state) = ''b.log'')"
    using Close_latch_is_process_wide [of plain_lib "[CallInfo ''hi'' [], CallClose]" demo_state
        "''b.log''"] h
    by blast
  with h l show ?thesis unfolding c by blast
qed

text \<open>
  C1. What the code does when \<open>SetLogFile\<close> is called twice with different paths,
  from process start: after the second call both handles are open, and \<open>logFile\<close>
  holds only the second; a line logged afterwards goes to the second file only; after
  \<open>Close\<close>, called twice, only the second handle was closed and the handle on the first
  file is still open. The first handle is not released.
\<close>

theorem SetLogFile_twice_leaks_first_handle:
  "(case run plain_lib [CallSetLogFile ''a.log'', CallSetLogFile ''b.log''] (init_state empty_os) of
      Inl f \<Rightarrow> False
    | Inr st \<Rightarrow> handles st = [''a.log'', ''b.log''] \<and> open_handles st = [0, 1] \<and>
        logFile st = Some 1) \<and>
   (case run plain_lib [CallSetLogFile ''a.log'', CallSetLogFile ''b.log'', CallInfo ''hi'' [],
                        CallClose, CallClose] (init_state empty_os) of
      Inl f \<Rightarrow> False
    | Inr st \<Rightarrow> closes st = [1] \<and> open_handles st = [0] \<and> handles st ! 0 = ''a.log'' \<and>
        file_lines st ''a.log'' = [] \<and> file_lines st ''b.log'' = [''| INFO | hi''])"
  by (simp add: op_defs Info_def LogMessage_def Logger_Printf_def Write_def Close_def File_Close_def
      is_open_def open_handles_def shouldLog_def levelToString_def level_defs upt_rec)

end
